theory Spec2Isabelle
  imports Complex_Main
begin

section \<open>Data model\<close>

text \<open>
  The simulation lives in \<^verbatim>\<open>animation.py\<close> (function \<^verbatim>\<open>simulation\<close> and its
  closures) and is started from \<^verbatim>\<open>cherenkov_simulation.py\<close>
  (\<^verbatim>\<open>InputDialog.validate_and_run\<close>).

  Python floats are modelled as \<^typ>\<open>real\<close>, frame numbers (Python ints) as
  \<^typ>\<open>int\<close>, numpy arrays of shape (rows, columns) as lists of rows.
  The matplotlib artists belong to the drawing layer: of the \<^verbatim>\<open>Circle\<close> patch of a
  wave only the presence of the key \<^verbatim>\<open>'circle'\<close> is kept, since that is all the
  control flow of \<^verbatim>\<open>animate\<close> reads.
\<close>

datatype error = ValueError string | ZeroDivision

type_synonym point = "real \<times> real"

type_synonym 'a array = "'a list list"

text \<open>A wave is the dict \<^verbatim>\<open>{'center': (x, y), 'start_frame': frame, 'circle': Circle}\<close>.\<close>

record wave =
  center :: point
  start_frame :: int
  circle :: bool

text \<open>The "global data holders" of \<^verbatim>\<open>simulation\<close> that \<^verbatim>\<open>animate\<close> mutates.\<close>

record holders =
  waves :: "wave list"
  particle_trail :: "point list"

text \<open>The locals of \<^verbatim>\<open>simulation\<close> that its closures capture read-only.\<close>

record params =
  c_medium :: real
  v_particle :: real
  theta :: real
  n_medium :: real

section \<open>Simulation parameters (animation.py, lines 24--29)\<close>

text \<open>
  \<^verbatim>\<open>simulation(v, c)\<close> binds its parameters \<^verbatim>\<open>v\<close> and \<^verbatim>\<open>c\<close> and then assigns
  \<^verbatim>\<open>c_medium = 0.7\<close>, \<^verbatim>\<open>v_particle = 0.9\<close>; nothing in the body reads \<^verbatim>\<open>v\<close> or
  \<^verbatim>\<open>c\<close>.
\<close>

definition simulation_params :: "real \<Rightarrow> real \<Rightarrow> params" where
  "simulation_params v c =
     (let c_medium = 0.7;
          v_particle = 0.9;
          theta = arccos (c_medium / v_particle);
          n_medium = 1 / c_medium
      in \<lparr>c_medium = c_medium, v_particle = v_particle, theta = theta, n_medium = n_medium\<rparr>)"

section \<open>Interference grid (animation.py, lines 41--45)\<close>

text \<open>\<^verbatim>\<open>numpy.linspace(a, b, n)\<close> for \<^verbatim>\<open>n\<close> at least 2: \<^verbatim>\<open>n\<close> evenly spaced samples.\<close>

definition linspace :: "real \<Rightarrow> real \<Rightarrow> nat \<Rightarrow> real list" where
  "linspace a b n = map (\<lambda>i. a + real i * ((b - a) / real (n - 1))) [0..<n]"

text \<open>\<^verbatim>\<open>X, Y = numpy.meshgrid(xs, ys)\<close>: both of shape (len ys, len xs).\<close>

definition meshgrid :: "real list \<Rightarrow> real list \<Rightarrow> real array \<times> real array" where
  "meshgrid xs ys = (replicate (length ys) xs, map (\<lambda>y. replicate (length xs) y) ys)"

definition nx :: nat where "nx = 200"
definition ny :: nat where "ny = 150"

definition x_lin :: "real list" where "x_lin = linspace (- 8) 8 nx"
definition y_lin :: "real list" where "y_lin = linspace (- 6) 6 ny"

definition X :: "real array" where "X = fst (meshgrid x_lin y_lin)"
definition Y :: "real array" where "Y = snd (meshgrid x_lin y_lin)"

subsection \<open>Elementwise array operations\<close>

definition amap :: "('a \<Rightarrow> 'b) \<Rightarrow> 'a array \<Rightarrow> 'b array" where
  "amap f A = map (map f) A"

definition amap2 :: "('a \<Rightarrow> 'b \<Rightarrow> 'c) \<Rightarrow> 'a array \<Rightarrow> 'b array \<Rightarrow> 'c array" where
  "amap2 f A B = map2 (\<lambda>ra rb. map2 f ra rb) A B"

definition zeros_like :: "'a array \<Rightarrow> 'b::zero array" where
  "zeros_like A = amap (\<lambda>_. 0) A"

text \<open>
  Division is where the intensity computation could go wrong. numpy does not raise on a
  zero divisor: it yields \<^verbatim>\<open>inf\<close> or \<^verbatim>\<open>nan\<close> and a RuntimeWarning. The model reports
  a zero divisor as the error \<^const>\<open>ZeroDivision\<close>, so that "never divides by zero" is a
  statement about the result.
\<close>

definition adiv :: "real array \<Rightarrow> real array \<Rightarrow> error + real array" where
  "adiv A B = (if 0 \<in> set (concat B) then Inl ZeroDivision else Inr (amap2 (/) A B))"

definition adiv_scalar :: "real array \<Rightarrow> real \<Rightarrow> error + real array" where
  "adiv_scalar A d = (if d = 0 then Inl ZeroDivision else Inr (amap (\<lambda>a. a / d) A))"

text \<open>\<^verbatim>\<open>A.max()\<close>: numpy raises ValueError on an array without elements.\<close>

definition amax :: "real array \<Rightarrow> error + real" where
  "amax A = (if concat A = [] then Inl (ValueError ''zero-size array to reduction operation maximum'')
             else Inr (Max (set (concat A))))"

section \<open>compute\_intensity (animation.py, lines 95--116)\<close>

definition damping :: real where "damping = 0.1"
definition wavelength :: real where "wavelength = 1.0"
definition wave_speed :: "params \<Rightarrow> real" where "wave_speed p = 0.1 * c_medium p"

text \<open>Line 107: \<^verbatim>\<open>r = np.sqrt((X - cx)**2 + (Y - cy)**2)\<close>.\<close>

definition dist_grid :: "real \<Rightarrow> real \<Rightarrow> real array" where
  "dist_grid cx cy = amap sqrt (amap2 (+) (amap (\<lambda>x. (x - cx)\<^sup>2) X) (amap (\<lambda>y. (y - cy)\<^sup>2) Y))"

text \<open>The body of \<^verbatim>\<open>for wave in waves\<close> (lines 101--110), with \<^verbatim>\<open>Z\<close> as accumulator.\<close>

fun superpose :: "params \<Rightarrow> int \<Rightarrow> wave list \<Rightarrow> complex array \<Rightarrow> error + complex array" where
  "superpose p frame_number [] Z = Inr Z"
| "superpose p frame_number (wave # rest) Z =
     (let (cx, cy) = center wave in
      if cx < - 8 \<or> cx > 8 \<or> cy < - 6 \<or> cy > 6 then superpose p frame_number rest Z
      else
        let age = frame_number - start_frame wave;
            r = dist_grid cx cy
        in (case adiv (amap (\<lambda>r. exp (- damping * r)) r) (amap (\<lambda>r. r + 0.1) r) of
              Inl e \<Rightarrow> Inl e
            | Inr amplitude \<Rightarrow>
                (case adiv_scalar (amap (\<lambda>r. 2 * pi * (r - real_of_int age * wave_speed p)) r) wavelength of
                   Inl e \<Rightarrow> Inl e
                 | Inr phase \<Rightarrow>
                     superpose p frame_number rest
                       (amap2 (+) Z (amap2 (\<lambda>a ph. complex_of_real a * exp (\<i> * complex_of_real ph))
                                       amplitude phase)))))"

text \<open>Lines 112--116: power-law scaling and normalisation of \<^verbatim>\<open>|Z|**2\<close>.\<close>

definition normalise :: "complex array \<Rightarrow> error + real array" where
  "normalise Z =
     (let I = amap (\<lambda>z. (cmod z)\<^sup>2) Z;
          I_norm = amap (\<lambda>x. x powr 0.3) I
      in (case amax I_norm of
            Inl e \<Rightarrow> Inl e
          | Inr m \<Rightarrow> adiv_scalar I_norm (m + 0.000001)))"

definition compute_intensity :: "params \<Rightarrow> wave list \<Rightarrow> int \<Rightarrow> error + real array" where
  "compute_intensity p ws frame_number =
     (case superpose p frame_number ws (zeros_like X) of
        Inl e \<Rightarrow> Inl e
      | Inr Z \<Rightarrow> normalise Z)"

section \<open>animate (animation.py, lines 130--175)\<close>

text \<open>Lines 132--133: the particle moves on the line \<^verbatim>\<open>y = 0\<close>.\<close>

definition particle_xy :: "int \<Rightarrow> point" where
  "particle_xy frame = (real_of_int frame * 0.1 - 4, 0)"

text \<open>Lines 137--139: append, then drop the oldest entry when more than 30 are held.\<close>

definition update_trail :: "point \<Rightarrow> point list \<Rightarrow> point list" where
  "update_trail xy trail =
     (let trail = trail @ [xy] in if length trail > 30 then tl trail else trail)"

text \<open>Lines 147--154: every 5 frames a new wave, if the particle is on screen.\<close>

definition emit_wave :: "int \<Rightarrow> point \<Rightarrow> wave list \<Rightarrow> wave list" where
  "emit_wave frame xy ws =
     (if frame mod 5 = 0 \<and> - 8 \<le> fst xy \<and> fst xy \<le> 8
      then ws @ [\<lparr>center = xy, start_frame = frame, circle = True\<rparr>]
      else ws)"

text \<open>Lines 159 and 162: what \<^verbatim>\<open>set_radius\<close> and \<^verbatim>\<open>set_alpha\<close> are given.\<close>

definition radius :: "params \<Rightarrow> int \<Rightarrow> real" where
  "radius p age = 0.1 + real_of_int age * 0.1 * c_medium p"

definition new_alpha :: "int \<Rightarrow> real" where
  "new_alpha age = max 0 (0.2 - real_of_int age * 0.01)"

text \<open>The two disjuncts of the removal test at line 165.\<close>

definition faded :: "int \<Rightarrow> wave \<Rightarrow> bool" where
  "faded frame wave = (new_alpha (frame - start_frame wave) \<le> 0.03)"

definition out_of_bounds :: "wave \<Rightarrow> bool" where
  "out_of_bounds wave =
     (let (cx, cy) = center wave in cx < - 10 \<or> cx > 10 \<or> cy < - 8 \<or> cy > 8)"

text \<open>Lines 160 and 165 together: the wave is taken out of the list.\<close>

definition removed :: "int \<Rightarrow> wave \<Rightarrow> bool" where
  "removed frame wave = (circle wave \<and> (faded frame wave \<or> out_of_bounds wave))"

text \<open>
  Lines 157--167: \<^verbatim>\<open>for wave in waves.copy()\<close>. The first list is the rest of the
  copy being walked, the second (\<open>ws\<close>) the list \<^verbatim>\<open>waves\<close> being shrunk;
  \<^verbatim>\<open>waves.remove(wave)\<close> deletes the first equal element and raises ValueError when
  there is none.
\<close>

fun update_waves :: "int \<Rightarrow> wave list \<Rightarrow> wave list \<Rightarrow> error + wave list" where
  "update_waves frame [] ws = Inr ws"
| "update_waves frame (wave # rest) ws =
     (if circle wave then
        (if faded frame wave \<or> out_of_bounds wave then
           (if wave \<in> set ws then update_waves frame rest (remove1 wave ws)
            else Inl (ValueError ''list.remove(x): x not in list''))
         else update_waves frame rest ws)
      else update_waves frame rest ws)"

text \<open>One tick: the new holders and the intensity array handed to the overlay.\<close>

definition animate :: "params \<Rightarrow> int \<Rightarrow> holders \<Rightarrow> error + (holders \<times> real array)" where
  "animate p frame h =
     (let xy = particle_xy frame;
          trail = update_trail xy (particle_trail h);
          emitted = emit_wave frame xy (waves h)
      in (case update_waves frame emitted emitted of
            Inl e \<Rightarrow> Inl e
          | Inr ws \<Rightarrow>
              (case compute_intensity p ws frame of
                 Inl e \<Rightarrow> Inl e
               | Inr I_norm \<Rightarrow> Inr (\<lparr>waves = ws, particle_trail = trail\<rparr>, I_norm))))"

section \<open>The run (animation.py, lines 34--35 and 180--187)\<close>

definition init_holders :: holders where
  "init_holders = \<lparr>waves = [], particle_trail = []\<rparr>"

text \<open>\<^verbatim>\<open>FuncAnimation(..., frames=n)\<close> calls \<^verbatim>\<open>animate\<close> on 0, 1, ..., n - 1 in order.\<close>

definition frames :: "nat \<Rightarrow> int list" where
  "frames n = map int [0..<n]"

fun run :: "params \<Rightarrow> int list \<Rightarrow> holders \<Rightarrow> error + holders" where
  "run p [] h = Inr h"
| "run p (frame # rest) h =
     (case animate p frame h of Inl e \<Rightarrow> Inl e | Inr (h', _) \<Rightarrow> run p rest h')"

definition simulation :: "real \<Rightarrow> real \<Rightarrow> error + holders" where
  "simulation v c = run (simulation_params v c) (frames 200) init_holders"

text \<open>
  What the list \<^verbatim>\<open>waves\<close> looks like once the tick of frame \<open>f\<close> is over: start
  frames increase along the list, and every wave was emitted by \<^const>\<open>emit_wave\<close> at
  a frame between \<open>f - 16\<close> and \<open>f\<close>. It is the invariant of the proofs below.
\<close>

definition wave_inv :: "int \<Rightarrow> wave list \<Rightarrow> bool" where
  "wave_inv f ws =
     (sorted_wrt (<) (map start_frame ws) \<and>
      (\<forall>w \<in> set ws. w = \<lparr>center = particle_xy (start_frame w), start_frame = start_frame w, circle = True\<rparr>
         \<and> start_frame w mod 5 = 0 \<and> 0 \<le> start_frame w \<and> start_frame w \<le> 120
         \<and> f - 16 \<le> start_frame w \<and> start_frame w \<le> f))"

section \<open>InputDialog.validate\_and\_run (cherenkov\_simulation.py, lines 33--52)\<close>

definition run_simulation :: "real \<Rightarrow> real \<Rightarrow> error + holders" where
  "run_simulation vp cm = simulation vp cm"

text \<open>
  The arguments \<open>vp\<close> and \<open>cm\<close> are \<^verbatim>\<open>v_particle\<close> and \<^verbatim>\<open>c_medium\<close>, the two
  numbers read from the text fields. The result \<open>Inl e\<close> is the
  exception that the handlers of \<^verbatim>\<open>validate_and_run\<close> turn into a warning box; on
  the two \<^verbatim>\<open>raise\<close> branches \<^verbatim>\<open>run_simulation\<close> is not called.
\<close>

definition validate_and_run :: "real \<Rightarrow> real \<Rightarrow> error + holders" where
  "validate_and_run vp cm =
     (if \<not> (0 < cm \<and> cm < 1 \<and> 0 < vp \<and> vp \<le> 1)
      then Inl (ValueError ''Speeds must be between 0 and 1'')
      else if vp \<le> cm
      then Inl (ValueError ''Particle speed must exceed medium light speed for Cherenkov radiation'')
      else run_simulation vp cm)"

section \<open>Arrays: shapes and elements\<close>

lemma map_length_amap: "map length (amap f A) = map length A"
  by (simp add: amap_def comp_def)

lemma map_length_amap2:
  "map length A = map length B \<Longrightarrow> map length (amap2 f A B) = map length A"
proof (induction A arbitrary: B)
  case Nil
  then show ?case by (simp add: amap2_def)
next
  case (Cons a A)
  then obtain b B' where B: "B = b # B'" by (cases B) auto
  with Cons.prems have "length a = length b" "map length A = map length B'" by auto
  with Cons.IH [of B'] B show ?case by (simp add: amap2_def)
qed

lemma concat_amap: "concat (amap f A) = map f (concat A)"
  by (simp add: amap_def map_concat)

lemma in_concat_amap: "(g \<in> set (concat (amap f A))) = (\<exists>a\<in>set (concat A). g = f a)"
  by (simp only: concat_amap set_map image_iff)

lemma concat_empty_shape: "(concat A = []) = (\<forall>n \<in> set (map length A). n = 0)"
  by auto

lemma concat_empty_cong:
  "map length A = map length B \<Longrightarrow> (concat A = []) = (concat B = [])"
  by (simp only: concat_empty_shape)

lemma set_concat_amap2:
  assumes "c \<in> set (concat (amap2 f A B))"
  obtains a b where "a \<in> set (concat A)" "b \<in> set (concat B)" "c = f a b"
proof -
  from assms obtain ra rb where rows: "(ra, rb) \<in> set (zip A B)" and c: "c \<in> set (map2 f ra rb)"
    by (auto simp: amap2_def)
  from c obtain a b where ab: "(a, b) \<in> set (zip ra rb)" and eq: "c = f a b" by auto
  from rows have "ra \<in> set A" "rb \<in> set B" by (auto dest: set_zip_leftD set_zip_rightD)
  moreover from ab have "a \<in> set ra" "b \<in> set rb" by (auto dest: set_zip_leftD set_zip_rightD)
  ultimately have "a \<in> set (concat A)" "b \<in> set (concat B)" by auto
  with eq that show thesis by blast
qed

lemma length_linspace: "length (linspace a b n) = n"
  by (simp add: linspace_def)

lemma shape_X: "map length X = replicate ny nx"
  by (simp add: X_def meshgrid_def x_lin_def y_lin_def length_linspace)

lemma shape_Y: "map length Y = replicate ny nx"
  by (simp add: Y_def meshgrid_def x_lin_def y_lin_def length_linspace map_replicate_const comp_def)

lemma concat_X_nonempty: "concat X \<noteq> []"
  unfolding concat_empty_shape shape_X by (simp add: nx_def ny_def)


lemma shape_dist_grid: "map length (dist_grid cx cy) = map length X"
  by (simp add: dist_grid_def map_length_amap map_length_amap2 shape_X shape_Y)

lemma dist_grid_nonneg:
  assumes "d \<in> set (concat (dist_grid cx cy))"
  shows "0 \<le> d"
proof -
  from assms obtain s where
    s: "s \<in> set (concat (amap2 (+) (amap (\<lambda>x. (x - cx)\<^sup>2) X) (amap (\<lambda>y. (y - cy)\<^sup>2) Y)))"
    and d: "d = sqrt s"
    by (auto simp: dist_grid_def concat_amap)
  from s obtain a b where "a \<in> set (concat (amap (\<lambda>x. (x - cx)\<^sup>2) X))"
    "b \<in> set (concat (amap (\<lambda>y. (y - cy)\<^sup>2) Y))" "s = a + b"
    by (rule set_concat_amap2)
  then have "0 \<le> s" by (auto simp: concat_amap)
  with d show ?thesis by simp
qed

lemma adiv_dist_grid:
  "adiv A (amap (\<lambda>r. r + 0.1) (dist_grid cx cy)) = Inr (amap2 (/) A (amap (\<lambda>r. r + 0.1) (dist_grid cx cy)))"
proof -
  have "0 \<notin> set (concat (amap (\<lambda>r. r + 0.1) (dist_grid cx cy)))"
  proof
    assume "0 \<in> set (concat (amap (\<lambda>r. r + 0.1) (dist_grid cx cy)))"
    then have "0 \<in> (\<lambda>r. r + 0.1) ` set (concat (dist_grid cx cy))"
      by (simp only: concat_amap set_map)
    then obtain d where "d \<in> set (concat (dist_grid cx cy))" "d + 0.1 = 0"
      by force
    with dist_grid_nonneg [of d cx cy] show False by simp
  qed
  then show ?thesis by (simp add: adiv_def)
qed

lemma superpose_total:
  "map length Z = map length X \<Longrightarrow>
   \<exists>Z'. superpose p frame_number ws Z = Inr Z' \<and> map length Z' = map length X"
proof (induction ws arbitrary: Z)
  case Nil
  then show ?case by simp
next
  case (Cons wave rest)
  obtain cx cy where c: "center wave = (cx, cy)" by (cases "center wave")
  show ?case
  proof (cases "cx < - 8 \<or> cx > 8 \<or> cy < - 6 \<or> cy > 6")
    case True
    with c Cons.IH [OF Cons.prems] show ?thesis by simp
  next
    case False
    let ?r = "dist_grid cx cy"
    let ?amp = "amap2 (/) (amap (\<lambda>r. exp (- damping * r)) ?r) (amap (\<lambda>r. r + 0.1) ?r)"
    let ?ph = "amap (\<lambda>a. a / wavelength)
                 (amap (\<lambda>r. 2 * pi * (r - real_of_int (frame_number - start_frame wave) * wave_speed p)) ?r)"
    let ?Z = "amap2 (+) Z (amap2 (\<lambda>a ph. complex_of_real a * exp (\<i> * complex_of_real ph)) ?amp ?ph)"
    have amp: "map length ?amp = map length X"
      by (simp add: map_length_amap map_length_amap2 shape_dist_grid)
    have ph: "map length ?ph = map length X"
      by (simp add: map_length_amap shape_dist_grid)
    have "map length ?Z = map length X"
      using Cons.prems amp ph by (simp add: map_length_amap2)
    from Cons.IH [OF this] obtain Z' where
      "superpose p frame_number rest ?Z = Inr Z'" "map length Z' = map length X" by blast
    moreover have "superpose p frame_number (wave # rest) Z = superpose p frame_number rest ?Z"
      using c False
      by (simp add: Let_def adiv_dist_grid adiv_scalar_def wavelength_def)
    ultimately show ?thesis by simp
  qed
qed

lemma amax_shape:
  assumes "map length A = map length X"
  shows "amax A = Inr (Max (set (concat A)))"
proof -
  have "concat A \<noteq> []"
    using concat_X_nonempty concat_empty_cong [OF assms] by simp
  then show ?thesis by (simp add: amax_def)
qed

lemma Max_powr_nonneg:
  assumes "concat A \<noteq> []"
  shows "0 \<le> Max (set (concat (amap (\<lambda>x::real. x powr y) A)))"
proof -
  from assms obtain a where "a \<in> set (concat A)" by (cases "concat A") auto
  then have "a powr y \<in> set (concat (amap (\<lambda>x. x powr y) A))"
    by (simp add: concat_amap)
  then have "a powr y \<le> Max (set (concat (amap (\<lambda>x. x powr y) A)))" by simp
  moreover have "0 \<le> a powr y" by simp
  ultimately show ?thesis by linarith
qed

lemma normalise_ok:
  assumes "map length Z = map length X"
  shows "\<exists>G. normalise Z = Inr G \<and> map length G = map length X \<and>
             (\<forall>g \<in> set (concat G). 0 \<le> g \<and> g \<le> 1)"
proof -
  let ?I = "amap (\<lambda>z. (cmod z)\<^sup>2) Z"
  let ?N = "amap (\<lambda>x. x powr 0.3) ?I"
  let ?m = "Max (set (concat ?N))"
  let ?G = "amap (\<lambda>a. a / (?m + 0.000001)) ?N"
  have shape: "map length ?I = map length X" using assms by (simp add: map_length_amap)
  then have shapeN: "map length ?N = map length X" by (simp add: map_length_amap)
  have m: "amax ?N = Inr ?m" by (rule amax_shape [OF shapeN])
  have "concat ?I \<noteq> []"
    using concat_X_nonempty concat_empty_cong [OF shape] by simp
  then have m0: "0 \<le> ?m" by (rule Max_powr_nonneg)
  then have "?m + 0.000001 \<noteq> 0" by simp
  then have eq: "normalise Z = Inr ?G"
    using m by (simp add: normalise_def Let_def adiv_scalar_def)
  have "0 \<le> g \<and> g \<le> 1" if "g \<in> set (concat ?G)" for g
  proof -
    from that obtain a where a: "a \<in> set (concat ?N)" and g: "g = a / (?m + 0.000001)"
      unfolding in_concat_amap [of g] by blast
    from a have "a \<le> ?m" by simp
    moreover from a have "0 \<le> a" unfolding in_concat_amap [of a] by auto
    ultimately show ?thesis using g by simp
  qed
  moreover have "map length ?G = map length X" using shapeN by (simp add: map_length_amap)
  ultimately show ?thesis using eq by blast
qed

lemma normalise_zeros: "normalise (zeros_like X) = Inr (zeros_like X)"
proof -
  let ?N = "amap (\<lambda>x. x powr 0.3) (amap (\<lambda>z. (cmod z)\<^sup>2) (zeros_like X :: complex array))"
  have N: "?N = amap (\<lambda>_. 0::real) X"
    by (simp add: zeros_like_def amap_def comp_def)
  have "map length ?N = map length X" by (simp add: map_length_amap zeros_like_def)
  then have m: "amax ?N = Inr (Max (set (concat ?N)))" by (rule amax_shape)
  have "set (concat (amap (\<lambda>_. 0::real) X)) = {0}"
    using concat_X_nonempty by (cases "concat X") (auto simp: concat_amap)
  then have "Max (set (concat ?N)) = 0" by (simp add: N)
  with m have "amax ?N = Inr 0" by simp
  then show ?thesis
    unfolding normalise_def Let_def
    by (simp add: adiv_scalar_def) (simp add: zeros_like_def amap_def comp_def)
qed

lemma shape_zeros: "map length (zeros_like X :: complex array) = map length X"
  by (simp add: zeros_like_def map_length_amap)

lemma compute_intensity_ok:
  "\<exists>G. compute_intensity p ws frame_number = Inr G \<and> map length G = map length X \<and>
       (\<forall>g \<in> set (concat G). 0 \<le> g \<and> g \<le> 1)"
proof -
  from superpose_total [OF shape_zeros] obtain Z where
    Z: "superpose p frame_number ws (zeros_like X) = Inr Z" "map length Z = map length X"
    by blast
  from normalise_ok [OF Z(2)] Z(1) show ?thesis by (simp add: compute_intensity_def)
qed

lemma compute_intensity_empty: "compute_intensity p [] frame_number = Inr (zeros_like X)"
  by (simp add: compute_intensity_def normalise_zeros)

lemma dist_grid_corner: "dist_grid (- 8) (- 6) ! 0 ! 0 = 0"
  by (simp add: dist_grid_def amap_def amap2_def X_def Y_def meshgrid_def x_lin_def y_lin_def
        linspace_def nx_def ny_def)

section \<open>The removal pass and the fade factor\<close>

lemma update_waves_filter:
  "distinct rest \<Longrightarrow> distinct ws \<Longrightarrow> set rest \<subseteq> set ws \<Longrightarrow>
   update_waves frame rest ws = Inr (filter (\<lambda>w. \<not> (w \<in> set rest \<and> removed frame w)) ws)"
proof (induction rest arbitrary: ws)
  case Nil
  then show ?case by simp
next
  case (Cons wave rest)
  show ?case
  proof (cases "removed frame wave")
    case True
    from Cons.prems have mem: "wave \<in> set ws" and notin: "wave \<notin> set rest" by auto
    have r1: "remove1 wave ws = filter (\<lambda>v. v \<noteq> wave) ws"
      using Cons.prems(2) by (simp add: distinct_remove1_removeAll removeAll_filter_not_eq) metis
    have "update_waves frame (wave # rest) ws = update_waves frame rest (remove1 wave ws)"
      using True mem by (simp add: removed_def)
    also have "\<dots> = Inr (filter (\<lambda>w. \<not> (w \<in> set rest \<and> removed frame w)) (remove1 wave ws))"
      using Cons.prems notin by (intro Cons.IH) auto
    also have "filter (\<lambda>w. \<not> (w \<in> set rest \<and> removed frame w)) (remove1 wave ws)
               = filter (\<lambda>w. \<not> (w \<in> set (wave # rest) \<and> removed frame w)) ws"
      unfolding r1 filter_filter using True by (intro filter_cong) auto
    finally show ?thesis .
  next
    case False
    have "update_waves frame (wave # rest) ws = update_waves frame rest ws"
      using False by (auto simp: removed_def)
    also have "\<dots> = Inr (filter (\<lambda>w. \<not> (w \<in> set rest \<and> removed frame w)) ws)"
      using Cons.prems by (intro Cons.IH) auto
    also have "filter (\<lambda>w. \<not> (w \<in> set rest \<and> removed frame w)) ws
               = filter (\<lambda>w. \<not> (w \<in> set (wave # rest) \<and> removed frame w)) ws"
      using False by (intro filter_cong) auto
    finally show ?thesis .
  qed
qed

lemma update_waves_self:
  assumes "distinct ws"
  shows "update_waves frame ws ws = Inr (filter (\<lambda>w. \<not> removed frame w) ws)"
proof -
  have "filter (\<lambda>w. \<not> (w \<in> set ws \<and> removed frame w)) ws = filter (\<lambda>w. \<not> removed frame w) ws"
    by (intro filter_cong) auto
  with update_waves_filter [OF assms assms subset_refl, of frame] show ?thesis by simp
qed

lemma faded_iff: "faded frame w = (17 \<le> frame - start_frame w)"
  by (auto simp: faded_def new_alpha_def max_def)

lemma new_alpha_iff: "(new_alpha age \<le> 0.03) = (17 \<le> age)"
  by (auto simp: new_alpha_def max_def)

lemma new_alpha_strict: "i < j \<Longrightarrow> j \<le> 20 \<Longrightarrow> new_alpha j < new_alpha i"
  by (auto simp: new_alpha_def max_def)

lemma on_screen_iff:
  "(- 8 \<le> fst (particle_xy frame) \<and> fst (particle_xy frame) \<le> 8) = (- 40 \<le> frame \<and> frame \<le> 120)"
  by (auto simp: particle_xy_def)

lemma emitted_in_bounds:
  assumes "0 \<le> s" "s \<le> 120"
  shows "\<not> out_of_bounds \<lparr>center = particle_xy s, start_frame = s, circle = True\<rparr>"
  using assms by (simp add: out_of_bounds_def particle_xy_def)

lemma sorted_start_distinct:
  assumes "sorted_wrt (<) (map start_frame ws)"
  shows "distinct ws"
proof -
  from assms have "distinct (map start_frame ws)" by (simp add: strict_sorted_iff)
  then show ?thesis by (simp add: distinct_map)
qed

lemma emitted_props:
  assumes inv: "wave_inv (f - 1) ws" and f: "0 \<le> f"
  defines "E \<equiv> emit_wave f (particle_xy f) ws"
  shows "sorted_wrt (<) (map start_frame E)"
    and "\<forall>w \<in> set E. w = \<lparr>center = particle_xy (start_frame w), start_frame = start_frame w, circle = True\<rparr>
           \<and> start_frame w mod 5 = 0 \<and> 0 \<le> start_frame w \<and> start_frame w \<le> 120
           \<and> f - 17 \<le> start_frame w \<and> start_frame w \<le> f"
proof -
  from inv have srt: "sorted_wrt (<) (map start_frame ws)"
    and old: "\<forall>w \<in> set ws. w = \<lparr>center = particle_xy (start_frame w), start_frame = start_frame w, circle = True\<rparr>
           \<and> start_frame w mod 5 = 0 \<and> 0 \<le> start_frame w \<and> start_frame w \<le> 120
           \<and> f - 17 \<le> start_frame w \<and> start_frame w \<le> f - 1"
    by (auto simp: wave_inv_def)
  show "sorted_wrt (<) (map start_frame E)"
  proof (cases "f mod 5 = 0 \<and> - 8 \<le> fst (particle_xy f) \<and> fst (particle_xy f) \<le> 8")
    case True
    have "\<forall>w \<in> set ws. start_frame w < f" using old by auto
    with srt True show ?thesis by (simp add: E_def emit_wave_def sorted_wrt_append)
  next
    case False
    then have "E = ws" by (auto simp: E_def emit_wave_def)
    with srt show ?thesis by simp
  qed
  show "\<forall>w \<in> set E. w = \<lparr>center = particle_xy (start_frame w), start_frame = start_frame w, circle = True\<rparr>
           \<and> start_frame w mod 5 = 0 \<and> 0 \<le> start_frame w \<and> start_frame w \<le> 120
           \<and> f - 17 \<le> start_frame w \<and> start_frame w \<le> f"
  proof
    fix w assume "w \<in> set E"
    then consider (old) "w \<in> set ws"
      | (new) "w = \<lparr>center = particle_xy f, start_frame = f, circle = True\<rparr>"
        "f mod 5 = 0" "- 8 \<le> fst (particle_xy f)" "fst (particle_xy f) \<le> 8"
      by (auto simp: E_def emit_wave_def split: if_splits)
    then show "w = \<lparr>center = particle_xy (start_frame w), start_frame = start_frame w, circle = True\<rparr>
           \<and> start_frame w mod 5 = 0 \<and> 0 \<le> start_frame w \<and> start_frame w \<le> 120
           \<and> f - 17 \<le> start_frame w \<and> start_frame w \<le> f"
    proof cases
      case old
      with \<open>\<forall>w \<in> set ws. _\<close> have "w = \<lparr>center = particle_xy (start_frame w), start_frame = start_frame w, circle = True\<rparr>
           \<and> start_frame w mod 5 = 0 \<and> 0 \<le> start_frame w \<and> start_frame w \<le> 120
           \<and> f - 17 \<le> start_frame w \<and> start_frame w \<le> f - 1" by blast
      then show ?thesis by simp
    next
      case new
      from new(3,4) have "f \<le> 120" using on_screen_iff [of f] by simp
      with new f show ?thesis by simp
    qed
  qed
qed

lemma emitted_removed:
  assumes inv: "wave_inv (f - 1) ws" and f: "0 \<le> f"
    and w: "w \<in> set (emit_wave f (particle_xy f) ws)"
  shows "removed f w = faded f w" and "\<not> out_of_bounds w"
proof -
  from emitted_props(2) [OF inv f] w
  have eq: "w = \<lparr>center = particle_xy (start_frame w), start_frame = start_frame w, circle = True\<rparr>"
    and rng: "0 \<le> start_frame w" "start_frame w \<le> 120" by blast+
  from emitted_in_bounds [OF rng] eq show oob: "\<not> out_of_bounds w" by simp
  from eq have "circle w" by (metis wave.select_convs(3))
  with oob show "removed f w = faded f w" by (simp add: removed_def)
qed

lemma tick_waves:
  assumes inv: "wave_inv (f - 1) ws" and f: "0 \<le> f"
  defines "E \<equiv> emit_wave f (particle_xy f) ws"
  shows "update_waves f E E = Inr (filter (\<lambda>w. \<not> faded f w) E)"
    and "wave_inv f (filter (\<lambda>w. \<not> faded f w) E)"
proof -
  note props = emitted_props [OF inv f, folded E_def]
  have "distinct E" using props(1) by (rule sorted_start_distinct)
  then have "update_waves f E E = Inr (filter (\<lambda>w. \<not> removed f w) E)"
    by (rule update_waves_self)
  also have "filter (\<lambda>w. \<not> removed f w) E = filter (\<lambda>w. \<not> faded f w) E"
    using emitted_removed(1) [OF inv f] by (intro filter_cong) (auto simp: E_def)
  finally show "update_waves f E E = Inr (filter (\<lambda>w. \<not> faded f w) E)" .
  have "sorted_wrt (\<lambda>a b. start_frame a < start_frame b) (filter (\<lambda>w. \<not> faded f w) E)"
    using props(1) unfolding sorted_wrt_map by (rule sorted_wrt_filter)
  then have "sorted_wrt (<) (map start_frame (filter (\<lambda>w. \<not> faded f w) E))"
    by (simp add: sorted_wrt_map)
  moreover have "f - 16 \<le> start_frame w" if "\<not> faded f w" for w
    using that by (simp add: faded_iff)
  ultimately show "wave_inv f (filter (\<lambda>w. \<not> faded f w) E)"
    using props(2) by (auto simp: wave_inv_def)
qed

section \<open>Ticks and runs\<close>

lemma animate_ok:
  assumes "wave_inv (f - 1) (waves h)" "0 \<le> f"
  shows "\<exists>I. animate p f h =
           Inr (\<lparr>waves = filter (\<lambda>w. \<not> faded f w) (emit_wave f (particle_xy f) (waves h)),
                 particle_trail = update_trail (particle_xy f) (particle_trail h)\<rparr>, I)"
proof -
  let ?ws = "filter (\<lambda>w. \<not> faded f w) (emit_wave f (particle_xy f) (waves h))"
  from compute_intensity_ok [of p ?ws f] obtain G where "compute_intensity p ?ws f = Inr G"
    by blast
  with tick_waves(1) [OF assms] show ?thesis by (simp add: animate_def Let_def)
qed

lemma run_append:
  "run p (xs @ ys) h = (case run p xs h of Inl e \<Rightarrow> Inl e | Inr h' \<Rightarrow> run p ys h')"
  by (induction xs arbitrary: h) (auto split: sum.splits)

lemma frames_Suc: "frames (Suc n) = frames n @ [int n]"
  by (simp add: frames_def)

lemma update_trail_drop:
  assumes "length L = n"
  shows "update_trail x (drop (n - 30) L) = drop (Suc n - 30) (L @ [x])"
proof (cases "30 \<le> n")
  case True
  then have len: "length (drop (n - 30) L @ [x]) = 31" using assms by simp
  have "drop (n - 30) L \<noteq> []" using assms True by simp
  then have "tl (drop (n - 30) L @ [x]) = tl (drop (n - 30) L) @ [x]" by simp
  also have "\<dots> = drop (Suc (n - 30)) L @ [x]" by (simp add: drop_Suc tl_drop)
  also have "Suc (n - 30) = Suc n - 30" using True by simp
  also have "drop (Suc n - 30) L @ [x] = drop (Suc n - 30) (L @ [x])" using True assms by simp
  finally show ?thesis using len by (simp add: update_trail_def Let_def)
next
  case False
  then show ?thesis using assms by (simp add: update_trail_def Let_def)
qed

lemma run_frames:
  "\<exists>h. run p (frames n) init_holders = Inr h \<and> wave_inv (int n - 1) (waves h) \<and>
       particle_trail h = drop (n - 30) (map particle_xy (frames n))"
proof (induction n)
  case 0
  show ?case by (simp add: frames_def init_holders_def wave_inv_def)
next
  case (Suc n)
  then obtain h where h: "run p (frames n) init_holders = Inr h"
    and inv: "wave_inv (int n - 1) (waves h)"
    and tr: "particle_trail h = drop (n - 30) (map particle_xy (frames n))" by blast
  let ?h' = "\<lparr>waves = filter (\<lambda>w. \<not> faded (int n) w) (emit_wave (int n) (particle_xy (int n)) (waves h)),
              particle_trail = update_trail (particle_xy (int n)) (particle_trail h)\<rparr>"
  from animate_ok [OF inv, of p] obtain I where "animate p (int n) h = Inr (?h', I)" by auto
  with h have "run p (frames (Suc n)) init_holders = Inr ?h'"
    by (simp add: frames_Suc run_append)
  moreover have "wave_inv (int (Suc n) - 1) (waves ?h')"
    using tick_waves(2) [OF inv] by simp
  moreover have "particle_trail ?h' = drop (Suc n - 30) (map particle_xy (frames (Suc n)))"
    using update_trail_drop [of "map particle_xy (frames n)" n "particle_xy (int n)"]
    by (simp add: tr frames_Suc) (simp add: frames_def)
  ultimately show ?case by blast
qed

lemma run_Suc:
  assumes "run p (frames n) init_holders = Inr h"
  shows "run p (frames (Suc n)) init_holders =
           Inr \<lparr>waves = filter (\<lambda>w. \<not> faded (int n) w) (emit_wave (int n) (particle_xy (int n)) (waves h)),
                particle_trail = update_trail (particle_xy (int n)) (particle_trail h)\<rparr>"
proof -
  from run_frames [of p n] assms have inv: "wave_inv (int n - 1) (waves h)" by auto
  from animate_ok [OF inv, of p] obtain I where "animate p (int n) h =
           Inr (\<lparr>waves = filter (\<lambda>w. \<not> faded (int n) w) (emit_wave (int n) (particle_xy (int n)) (waves h)),
                 particle_trail = update_trail (particle_xy (int n)) (particle_trail h)\<rparr>, I)" by auto
  with assms show ?thesis by (simp add: frames_Suc run_append)
qed

lemma multiples_spread:
  fixes x :: int
  shows "sorted_wrt (<) (x # xs) \<Longrightarrow> \<forall>y \<in> set (x # xs). y mod 5 = 0 \<Longrightarrow>
         x + 5 * int (length xs) \<le> last (x # xs)"
proof (induction xs arbitrary: x)
  case Nil
  then show ?case by simp
next
  case (Cons y ys)
  from Cons.prems have "x < y" "x mod 5 = 0" "y mod 5 = 0" by auto
  then have "x + 5 \<le> y" by presburger
  moreover from Cons.prems have "y + 5 * int (length ys) \<le> last (y # ys)"
    by (intro Cons.IH) auto
  ultimately show ?case by simp
qed

lemma wave_inv_length:
  assumes "wave_inv f ws"
  shows "length ws \<le> 4"
proof (cases ws)
  case Nil
  then show ?thesis by simp
next
  case (Cons w ws')
  let ?xs = "map start_frame ws"
  from assms have srt: "sorted_wrt (<) ?xs"
    and rng: "\<forall>y \<in> set ?xs. y mod 5 = 0 \<and> f - 16 \<le> y \<and> y \<le> f"
    by (auto simp: wave_inv_def)
  from Cons have xs: "?xs = start_frame w # map start_frame ws'" by simp
  have "start_frame w + 5 * int (length (map start_frame ws')) \<le> last ?xs"
    unfolding xs using srt rng unfolding xs by (intro multiples_spread) auto
  moreover have "last ?xs \<in> set ?xs" using xs by (intro last_in_set) simp
  then have "last ?xs \<le> f" using rng by blast
  moreover have "f - 16 \<le> start_frame w" using rng xs by simp
  ultimately have "5 * int (length ws') \<le> 16" by simp
  then have "length ws' \<le> 3" by linarith
  with Cons show ?thesis by simp
qed

lemma new_alpha_positive_strict:
  assumes "i < j" "0 < new_alpha i"
  shows "new_alpha j < new_alpha i"
proof -
  from assms(1) have "real_of_int i < real_of_int j" by simp
  then have "0.2 - real_of_int j * 0.01 < 0.2 - real_of_int i * 0.01" by simp
  moreover from assms(2) have "new_alpha i = 0.2 - real_of_int i * 0.01"
    by (simp add: new_alpha_def max_def split: if_splits)
  ultimately show ?thesis using assms(2) by (simp add: new_alpha_def max_def)
qed

lemma fold_update_trail_length:
  "length t \<le> 30 \<Longrightarrow> length (fold update_trail ps t) \<le> 30"
  by (induction ps arbitrary: t) (auto simp: update_trail_def Let_def)

lemma zeros_like_X: "(zeros_like X :: real array) = replicate 150 (replicate 200 0)"
  by (simp add: zeros_like_def amap_def X_def meshgrid_def x_lin_def y_lin_def length_linspace
        nx_def ny_def map_replicate_const)

section \<open>Concrete runs\<close>

lemma run_fold:
  "\<exists>h. run p (frames n) init_holders = Inr h \<and>
       waves h = fold (\<lambda>f ws. filter (\<lambda>w. \<not> faded f w) (emit_wave f (particle_xy f) ws)) (frames n) []"
proof (induction n)
  case 0
  show ?case by (simp add: frames_def init_holders_def)
next
  case (Suc n)
  then obtain h where h: "run p (frames n) init_holders = Inr h"
    and w: "waves h = fold (\<lambda>f ws. filter (\<lambda>w. \<not> faded f w) (emit_wave f (particle_xy f) ws)) (frames n) []"
    by blast
  from run_Suc [OF h] w show ?case by (simp add: frames_Suc)
qed

lemma shape_rows:
  assumes "map length G = map length X"
  shows "length G = 150" and "\<forall>row \<in> set G. length row = 200"
proof -
  from assms have eq: "map length G = replicate 150 200" by (simp add: shape_X nx_def ny_def)
  from arg_cong [OF eq, of length] show "length G = 150" by simp
  show "\<forall>row \<in> set G. length row = 200"
  proof
    fix row assume "row \<in> set G"
    then have "length row \<in> set (map length G)" by simp
    then show "length row = 200" unfolding eq by simp
  qed
qed

lemma wave_inv_center:
  assumes "w = \<lparr>center = particle_xy (start_frame w), start_frame = start_frame w, circle = True\<rparr>"
    and "0 \<le> start_frame w" "start_frame w \<le> 120"
  shows "snd (center w) = 0 \<and> - 8 \<le> fst (center w) \<and> fst (center w) \<le> 8"
proof -
  from assms(1) have "center w = particle_xy (start_frame w)" by (metis wave.select_convs(1))
  with assms(2,3) show ?thesis by (simp add: particle_xy_def)
qed

lemma frames_16: "frames 16 = [0,1,2,3,4,5,6,7,8,9,10,11,12,13,14,15]"
  by (simp add: frames_def upt_rec)

lemma waves_after_16:
  "fold (\<lambda>f ws. filter (\<lambda>w. \<not> faded f w) (emit_wave f (particle_xy f) ws)) (frames 16) [] =
     [\<lparr>center = (- 4, 0), start_frame = 0, circle = True\<rparr>,
      \<lparr>center = (- 7/2, 0), start_frame = 5, circle = True\<rparr>,
      \<lparr>center = (- 3, 0), start_frame = 10, circle = True\<rparr>,
      \<lparr>center = (- 5/2, 0), start_frame = 15, circle = True\<rparr>]"
  unfolding frames_16 by (simp add: emit_wave_def particle_xy_def faded_iff)

lemma waves_after_17:
  "fold (\<lambda>f ws. filter (\<lambda>w. \<not> faded f w) (emit_wave f (particle_xy f) ws)) (frames 17) [] =
     [\<lparr>center = (- 4, 0), start_frame = 0, circle = True\<rparr>,
      \<lparr>center = (- 7/2, 0), start_frame = 5, circle = True\<rparr>,
      \<lparr>center = (- 3, 0), start_frame = 10, circle = True\<rparr>,
      \<lparr>center = (- 5/2, 0), start_frame = 15, circle = True\<rparr>]"
  unfolding frames_Suc [of 16, simplified] fold_append comp_def waves_after_16
  by (simp add: emit_wave_def particle_xy_def faded_iff)

lemma run_waves_16:
  assumes "run p (frames 16) init_holders = Inr h"
  shows "waves h =
     [\<lparr>center = (- 4, 0), start_frame = 0, circle = True\<rparr>,
      \<lparr>center = (- 7/2, 0), start_frame = 5, circle = True\<rparr>,
      \<lparr>center = (- 3, 0), start_frame = 10, circle = True\<rparr>,
      \<lparr>center = (- 5/2, 0), start_frame = 15, circle = True\<rparr>]"
  using run_fold [of p 16] assms by (simp add: waves_after_16)

lemma run_waves_17:
  assumes "run p (frames 17) init_holders = Inr h"
  shows "waves h =
     [\<lparr>center = (- 4, 0), start_frame = 0, circle = True\<rparr>,
      \<lparr>center = (- 7/2, 0), start_frame = 5, circle = True\<rparr>,
      \<lparr>center = (- 3, 0), start_frame = 10, circle = True\<rparr>,
      \<lparr>center = (- 5/2, 0), start_frame = 15, circle = True\<rparr>]"
  using run_fold [of p 17] assms by (simp add: waves_after_17)

section \<open>Claims\<close>

text \<open>
  Claim C1. For a valid pair such as \<open>v = 1\<close>, \<open>c = 1/2\<close> the Cherenkov angle should be
  \<open>arccos (c / v)\<close> and the refractive index \<open>1 / c\<close>. The simulation computes both from the
  constants 0.7 and 0.9 assigned in its body instead: at \<open>v = 1\<close>, \<open>c = 1/2\<close> the angle is
  \<open>arccos (7/9)\<close>, not \<open>arccos (1/2)\<close>, and the index is \<open>10/7\<close>, not \<open>2\<close>.
\<close>

theorem simulation_params_ignore_arguments:
  "theta (simulation_params 1 (1/2)) = arccos (7/9) \<and>
   theta (simulation_params 1 (1/2)) \<noteq> arccos ((1/2) / 1) \<and>
   n_medium (simulation_params 1 (1/2)) = 10/7 \<and>
   n_medium (simulation_params 1 (1/2)) \<noteq> 1 / (1/2)"
proof -
  have "arccos (7/9) \<noteq> arccos (1/2 :: real)"
  proof
    assume eq: "arccos (7/9) = arccos (1/2 :: real)"
    have "(7/9 :: real) = cos (arccos (7/9))" by (rule cos_arccos [symmetric]) simp_all
    also have "\<dots> = cos (arccos (1/2))" by (rule arg_cong [OF eq])
    also have "\<dots> = 1/2" by (rule cos_arccos) simp_all
    finally show False by simp
  qed
  then show ?thesis by (simp add: simulation_params_def Let_def)
qed

text \<open>
  Claim C2. When the particle speed does not exceed the medium light speed, or the particle
  speed is outside \<open>(0, 1]\<close>, or the medium light speed is outside \<open>(0, 1)\<close>,
  \<^const>\<open>validate_and_run\<close> ends in one of its two validation errors (the exception the
  source raises is ValueError), which are raised before \<^const>\<open>run_simulation\<close> is called,
  so before any frame. With valid parameters the run of all 200 frames returns;
  in particular for 0.9 and 0.7.
\<close>

theorem validate_and_run_checks:
  "(vp \<le> cm \<or> \<not> (0 < vp \<and> vp \<le> 1) \<or> \<not> (0 < cm \<and> cm < 1) \<longrightarrow>
      validate_and_run vp cm = Inl (ValueError ''Speeds must be between 0 and 1'') \<or>
      validate_and_run vp cm =
        Inl (ValueError ''Particle speed must exceed medium light speed for Cherenkov radiation'')) \<and>
   (0 < cm \<and> cm < 1 \<and> 0 < vp \<and> vp \<le> 1 \<and> cm < vp \<longrightarrow> (\<exists>h. validate_and_run vp cm = Inr h)) \<and>
   (\<exists>h. validate_and_run 0.9 0.7 = Inr h)"
proof -
  have "\<exists>h. run_simulation v c = Inr h" for v c
    using run_frames [of "simulation_params v c" 200]
    by (auto simp: run_simulation_def simulation_def)
  then show ?thesis by (auto simp: validate_and_run_def)
qed

theorem validate_and_run_checks_witness:
  "(0.5::real) \<le> 0.7 \<and> validate_and_run 0.5 0.7 =
        Inl (ValueError ''Particle speed must exceed medium light speed for Cherenkov radiation'') \<and>
   \<not> (0 < (1.5::real) \<and> (1.5::real) \<le> 1) \<and>
   validate_and_run 1.5 0.7 = Inl (ValueError ''Speeds must be between 0 and 1'') \<and>
   (0::real) < 0.7 \<and> (0.7::real) < 0.9 \<and> (0.9::real) \<le> 1 \<and> (\<exists>h. validate_and_run 0.9 0.7 = Inr h)"
  using validate_and_run_checks [of "0.9" "0.7"] by (simp add: validate_and_run_def)

text \<open>
  Claim C3. In the tick of frame \<open>frame\<close> the emission step appends a wave centred at the
  particle position, with that start frame, exactly when \<open>frame\<close> is a multiple of 5 and
  the particle's x-coordinate lies in \<open>[-8, 8]\<close>; otherwise it leaves the list as it is.
\<close>

theorem emit_wave_iff:
  "(frame mod 5 = 0 \<and> - 8 \<le> fst (particle_xy frame) \<and> fst (particle_xy frame) \<le> 8 \<longrightarrow>
      emit_wave frame (particle_xy frame) ws =
        ws @ [\<lparr>center = particle_xy frame, start_frame = frame, circle = True\<rparr>]) \<and>
   (\<not> (frame mod 5 = 0 \<and> - 8 \<le> fst (particle_xy frame) \<and> fst (particle_xy frame) \<le> 8) \<longrightarrow>
      emit_wave frame (particle_xy frame) ws = ws) \<and>
   (emit_wave frame (particle_xy frame) ws \<noteq> ws) =
      (frame mod 5 = 0 \<and> - 8 \<le> fst (particle_xy frame) \<and> fst (particle_xy frame) \<le> 8)"
  by (simp add: emit_wave_def)

theorem emit_wave_iff_witness:
  "emit_wave 10 (particle_xy 10) [] = [\<lparr>center = (- 3, 0), start_frame = 10, circle = True\<rparr>] \<and>
   emit_wave 11 (particle_xy 11) [] = [] \<and>
   emit_wave 125 (particle_xy 125) [] = []"
  using emit_wave_iff [of 10 "[]"] emit_wave_iff [of 11 "[]"] emit_wave_iff [of 125 "[]"]
  by (simp add: particle_xy_def)

text \<open>
  Claim C4. The fade factor \<open>max 0 (0.2 - 0.01 * age)\<close> strictly decreases with age wherever
  it is still positive, and it is at most 0.03 exactly from age 17 on. In every run, every
  wave the removal pass of a tick visits has an age between 0 and 17, its fade factor has
  strictly decreased over all the ages it has had, and the pass keeps it exactly when its age
  is at most 16 and removes it exactly when its age is 17.
\<close>

theorem fade_and_removal:
  "(i < j \<and> 0 < new_alpha i \<longrightarrow> new_alpha j < new_alpha i) \<and>
   (new_alpha age \<le> 0.03) = (17 \<le> age) \<and>
   (\<exists>h h'. run p (frames n) init_holders = Inr h \<and> run p (frames (Suc n)) init_holders = Inr h' \<and>
      (\<forall>w \<in> set (emit_wave (int n) (particle_xy (int n)) (waves h)).
          0 \<le> int n - start_frame w \<and> int n - start_frame w \<le> 17 \<and>
          (\<forall>a b. 0 \<le> a \<and> a < b \<and> b \<le> int n - start_frame w \<longrightarrow> new_alpha b < new_alpha a) \<and>
          (w \<in> set (waves h')) = (int n - start_frame w \<le> 16) \<and>
          (w \<notin> set (waves h')) = (int n - start_frame w = 17)))"
proof -
  from run_frames [of p n] obtain h where h: "run p (frames n) init_holders = Inr h"
    and inv: "wave_inv (int n - 1) (waves h)" by blast
  let ?E = "emit_wave (int n) (particle_xy (int n)) (waves h)"
  let ?h' = "\<lparr>waves = filter (\<lambda>w. \<not> faded (int n) w) ?E,
              particle_trail = update_trail (particle_xy (int n)) (particle_trail h)\<rparr>"
  have n: "0 \<le> int n" by simp
  have h': "run p (frames (Suc n)) init_holders = Inr ?h'" by (rule run_Suc [OF h])
  have "0 \<le> int n - start_frame w \<and> int n - start_frame w \<le> 17 \<and>
          (\<forall>a b. 0 \<le> a \<and> a < b \<and> b \<le> int n - start_frame w \<longrightarrow> new_alpha b < new_alpha a) \<and>
          (w \<in> set (waves ?h')) = (int n - start_frame w \<le> 16) \<and>
          (w \<notin> set (waves ?h')) = (int n - start_frame w = 17)" if w: "w \<in> set ?E" for w
  proof -
    from emitted_props(2) [OF inv n] w
    have age: "0 \<le> int n - start_frame w" "int n - start_frame w \<le> 17" by auto
    have "new_alpha b < new_alpha a" if "a < b" "b \<le> int n - start_frame w" for a b
      using that age by (intro new_alpha_strict) auto
    moreover have "(w \<in> set (waves ?h')) = (int n - start_frame w \<le> 16)"
      using w by (auto simp: faded_iff)
    ultimately show ?thesis using age by auto
  qed
  with h h' have "\<exists>h h'. run p (frames n) init_holders = Inr h \<and> run p (frames (Suc n)) init_holders = Inr h' \<and>
      (\<forall>w \<in> set (emit_wave (int n) (particle_xy (int n)) (waves h)).
          0 \<le> int n - start_frame w \<and> int n - start_frame w \<le> 17 \<and>
          (\<forall>a b. 0 \<le> a \<and> a < b \<and> b \<le> int n - start_frame w \<longrightarrow> new_alpha b < new_alpha a) \<and>
          (w \<in> set (waves h')) = (int n - start_frame w \<le> 16) \<and>
          (w \<notin> set (waves h')) = (int n - start_frame w = 17))" by blast
  moreover have "i < j \<and> 0 < new_alpha i \<longrightarrow> new_alpha j < new_alpha i"
    using new_alpha_positive_strict by blast
  ultimately show ?thesis using new_alpha_iff by blast
qed

theorem fade_and_removal_witness:
  "(16::int) < 17 \<and> 0 < new_alpha 16 \<and> new_alpha 17 < new_alpha 16 \<and>
   new_alpha 17 \<le> 0.03 \<and> \<not> new_alpha 16 \<le> 0.03 \<and>
   (\<exists>h h'. run (simulation_params 0.9 0.7) (frames 17) init_holders = Inr h \<and>
           run (simulation_params 0.9 0.7) (frames 18) init_holders = Inr h' \<and>
           \<lparr>center = (- 4, 0), start_frame = 0, circle = True\<rparr> \<in> set (waves h) \<and>
           \<lparr>center = (- 4, 0), start_frame = 0, circle = True\<rparr> \<notin> set (waves h') \<and>
           \<lparr>center = (- 7/2, 0), start_frame = 5, circle = True\<rparr> \<in> set (waves h'))"
proof -
  let ?p = "simulation_params 0.9 0.7"
  note inst = fade_and_removal [of 16 17 17 ?p 17]
  from inst obtain h h' where h: "run ?p (frames 17) init_holders = Inr h"
    and h': "run ?p (frames 18) init_holders = Inr h'"
    and all: "\<forall>w \<in> set (emit_wave 17 (particle_xy 17) (waves h)).
          (w \<in> set (waves h')) = (17 - start_frame w \<le> 16)"
    by auto
  note ws = run_waves_17 [OF h]
  have E: "emit_wave 17 (particle_xy 17) (waves h) = waves h" by (simp add: emit_wave_def)
  from all have all': "\<forall>w \<in> set (waves h). (w \<in> set (waves h')) = (17 - start_frame w \<le> 16)"
    by (simp only: E)
  have "\<lparr>center = (- 4, 0), start_frame = 0, circle = True\<rparr> \<notin> set (waves h')"
    and "\<lparr>center = (- 7/2, 0), start_frame = 5, circle = True\<rparr> \<in> set (waves h')"
    using all' unfolding ws by simp_all
  moreover have "0 < new_alpha 16" by (simp add: new_alpha_def)
  moreover from inst have "new_alpha 17 \<le> 0.03" by simp
  moreover from fade_and_removal [of 16 17 16 ?p 17] have "\<not> new_alpha 16 \<le> 0.03" by simp
  ultimately show ?thesis using inst h h' ws by auto
qed

text \<open>
  Claim C5. For every frame number and every non-empty list of waves,
  \<^const>\<open>compute_intensity\<close> returns an array of 150 rows of 200 samples, each in the
  closed interval from 0 to 1.
\<close>

theorem compute_intensity_range:
  "ws \<noteq> [] \<Longrightarrow>
   \<exists>G. compute_intensity p ws frame_number = Inr G \<and> length G = 150 \<and>
       (\<forall>row \<in> set G. length row = 200 \<and> (\<forall>g \<in> set row. 0 \<le> g \<and> g \<le> 1))"
proof -
  from compute_intensity_ok [of p ws frame_number] obtain G where
    G: "compute_intensity p ws frame_number = Inr G" "map length G = map length X"
       "\<forall>g \<in> set (concat G). 0 \<le> g \<and> g \<le> 1" by blast
  from shape_rows [OF G(2)] G(1,3) show ?thesis by auto
qed

theorem compute_intensity_range_witness:
  "[\<lparr>center = (0, 0), start_frame = 0, circle = True\<rparr>] \<noteq> [] \<and>
   (\<exists>G. compute_intensity (simulation_params 0.9 0.7)
          [\<lparr>center = (0, 0), start_frame = 0, circle = True\<rparr>] 3 = Inr G \<and> length G = 150 \<and>
       (\<forall>row \<in> set G. length row = 200 \<and> (\<forall>g \<in> set row. 0 \<le> g \<and> g \<le> 1)))"
  using compute_intensity_range [of "[\<lparr>center = (0, 0), start_frame = 0, circle = True\<rparr>]"
      "simulation_params 0.9 0.7" 3]
  by simp

text \<open>
  Claim C6. \<^const>\<open>compute_intensity\<close> returns an array for every list of waves and
  every frame number, and the all-zero array for the empty list. The divisor \<open>r + 0.1\<close> of
  the amplitude is never zero, whatever the centre of the wave, although \<open>r = 0\<close> does
  occur (at the grid corner \<open>(-8, -6)\<close>).
\<close>

theorem compute_intensity_total:
  "(\<exists>G. compute_intensity p ws frame_number = Inr G) \<and>
   compute_intensity p [] frame_number = Inr (replicate 150 (replicate 200 0)) \<and>
   0 \<notin> set (concat (amap (\<lambda>r. r + 0.1) (dist_grid cx cy))) \<and>
   adiv A (amap (\<lambda>r. r + 0.1) (dist_grid cx cy)) = Inr (amap2 (/) A (amap (\<lambda>r. r + 0.1) (dist_grid cx cy))) \<and>
   dist_grid (- 8) (- 6) ! 0 ! 0 = 0"
proof -
  have "0 \<notin> set (concat (amap (\<lambda>r. r + 0.1) (dist_grid cx cy)))"
    using adiv_dist_grid [of A cx cy] by (auto simp: adiv_def split: if_splits)
  moreover have "\<exists>G. compute_intensity p ws frame_number = Inr G"
    using compute_intensity_ok [of p ws frame_number] by blast
  ultimately show ?thesis
    by (simp add: compute_intensity_empty zeros_like_X adiv_dist_grid dist_grid_corner)
qed

theorem compute_intensity_total_witness:
  "(\<exists>G. compute_intensity (simulation_params 0.9 0.7)
          [\<lparr>center = (- 8, 0), start_frame = 0, circle = True\<rparr>] 7 = Inr G) \<and>
   compute_intensity (simulation_params 0.9 0.7) [] 7 = Inr (replicate 150 (replicate 200 0)) \<and>
   0 \<notin> set (concat (amap (\<lambda>r. r + 0.1) (dist_grid (- 8) (- 6))))"
  using compute_intensity_total [of "simulation_params 0.9 0.7"
      "[\<lparr>center = (- 8, 0), start_frame = 0, circle = True\<rparr>]" 7 "- 8" "- 6" "[]"]
  by simp

text \<open>
  Claim C7. After any number of ticks, every wave in the list has its centre on the line
  \<open>y = 0\<close> with x in \<open>[-8, 8]\<close>, and so has every wave the removal pass of the next tick
  visits. For these the bounds test of line 165 is false: a wave is removed exactly when it has
  faded, and the pass returns the list filtered by the fade test alone.
\<close>

theorem centers_in_band:
  "\<exists>h. run p (frames n) init_holders = Inr h \<and>
       (\<forall>w \<in> set (waves h).
          snd (center w) = 0 \<and> - 8 \<le> fst (center w) \<and> fst (center w) \<le> 8 \<and> \<not> out_of_bounds w) \<and>
       (\<forall>w \<in> set (emit_wave (int n) (particle_xy (int n)) (waves h)).
          snd (center w) = 0 \<and> - 8 \<le> fst (center w) \<and> fst (center w) \<le> 8 \<and> \<not> out_of_bounds w \<and>
          removed (int n) w = faded (int n) w) \<and>
       update_waves (int n) (emit_wave (int n) (particle_xy (int n)) (waves h))
                            (emit_wave (int n) (particle_xy (int n)) (waves h))
         = Inr (filter (\<lambda>w. \<not> faded (int n) w) (emit_wave (int n) (particle_xy (int n)) (waves h)))"
proof -
  from run_frames [of p n] obtain h where h: "run p (frames n) init_holders = Inr h"
    and inv: "wave_inv (int n - 1) (waves h)" by blast
  have n: "0 \<le> int n" by simp
  have a: "snd (center w) = 0 \<and> - 8 \<le> fst (center w) \<and> fst (center w) \<le> 8 \<and> \<not> out_of_bounds w \<and>
          removed (int n) w = faded (int n) w"
    if "w \<in> set (emit_wave (int n) (particle_xy (int n)) (waves h))" for w
    using emitted_props(2) [OF inv n] emitted_removed [OF inv n that] that wave_inv_center [of w]
    by blast
  have sub: "set (waves h) \<subseteq> set (emit_wave (int n) (particle_xy (int n)) (waves h))"
    by (auto simp: emit_wave_def)
  from a sub tick_waves(1) [OF inv n] h show ?thesis by blast
qed

theorem centers_in_band_witness:
  "\<exists>h. run (simulation_params 0.9 0.7) (frames 17) init_holders = Inr h \<and>
       \<lparr>center = (- 5/2, 0), start_frame = 15, circle = True\<rparr> \<in> set (waves h) \<and>
       \<not> out_of_bounds \<lparr>center = (- 5/2, 0), start_frame = 15, circle = True\<rparr> \<and>
       \<lparr>center = (- 4, 0), start_frame = 0, circle = True\<rparr>
          \<in> set (emit_wave 17 (particle_xy 17) (waves h)) \<and>
       \<not> out_of_bounds \<lparr>center = (- 4, 0), start_frame = 0, circle = True\<rparr> \<and>
       faded 17 \<lparr>center = (- 4, 0), start_frame = 0, circle = True\<rparr> \<and>
       removed 17 \<lparr>center = (- 4, 0), start_frame = 0, circle = True\<rparr>"
proof -
  let ?p = "simulation_params 0.9 0.7"
  from centers_in_band [of ?p 17] obtain h where h: "run ?p (frames 17) init_holders = Inr h"
    and a: "\<forall>w \<in> set (waves h). \<not> out_of_bounds w"
    and b: "\<forall>w \<in> set (emit_wave 17 (particle_xy 17) (waves h)).
              \<not> out_of_bounds w \<and> removed 17 w = faded 17 w"
    by auto
  note ws = run_waves_17 [OF h]
  have E: "emit_wave 17 (particle_xy 17) (waves h) = waves h" by (simp add: emit_wave_def)
  have m1: "\<lparr>center = (- 5/2, 0), start_frame = 15, circle = True\<rparr> \<in> set (waves h)"
    and m0: "\<lparr>center = (- 4, 0), start_frame = 0, circle = True\<rparr> \<in> set (waves h)"
    unfolding ws by simp_all
  from m0 have m0': "\<lparr>center = (- 4, 0), start_frame = 0, circle = True\<rparr>
          \<in> set (emit_wave 17 (particle_xy 17) (waves h))" by (simp only: E)
  have f: "faded 17 \<lparr>center = (- 4, 0), start_frame = 0, circle = True\<rparr>"
    by (simp add: faded_iff)
  from bspec [OF a m1] have c1: "\<not> out_of_bounds \<lparr>center = (- 5/2, 0), start_frame = 15, circle = True\<rparr>" .
  from bspec [OF b m0'] f
  have c0: "\<not> out_of_bounds \<lparr>center = (- 4, 0), start_frame = 0, circle = True\<rparr>"
    "removed 17 \<lparr>center = (- 4, 0), start_frame = 0, circle = True\<rparr>" by simp_all
  show ?thesis by (intro exI [of _ h] conjI h m1 c1 m0' c0 f)
qed

text \<open>
  Claim C8. Starting from the empty trail, no sequence of pushes leaves more than 30
  positions; so the trail of every run holds at most 30. After the ticks of frames 0 to 49
  the trail is the positions of frames 20 to 49, in frame order.
\<close>

theorem trail_bounded:
  "length (fold update_trail ps []) \<le> 30 \<and>
   (\<exists>h. run p (frames n) init_holders = Inr h \<and> length (particle_trail h) \<le> 30) \<and>
   (\<exists>h. run p (frames 50) init_holders = Inr h \<and>
        particle_trail h = map particle_xy (map int [20..<50]))"
proof -
  have "\<exists>h. run p (frames n) init_holders = Inr h \<and> length (particle_trail h) \<le> 30"
    using run_frames [of p n] by (auto simp: frames_def)
  moreover have "\<exists>h. run p (frames 50) init_holders = Inr h \<and>
        particle_trail h = map particle_xy (map int [20..<50])"
    using run_frames [of p 50] by (auto simp: frames_def drop_map)
  ultimately show ?thesis by (simp add: fold_update_trail_length)
qed

theorem trail_bounded_witness:
  "length (fold update_trail (map particle_xy (frames 50)) []) \<le> 30 \<and>
   (\<exists>h. run (simulation_params 0.9 0.7) (frames 50) init_holders = Inr h \<and>
        length (particle_trail h) = 30 \<and>
        particle_trail h = map particle_xy (map int [20..<50]))"
  using trail_bounded [of "map particle_xy (frames 50)" "simulation_params 0.9 0.7" 50]
  by auto

text \<open>
  Claim C9. The particle position at frame \<open>n\<close> is \<open>(n * 0.1 - 4, 0)\<close>, so \<open>(-4, 0)\<close> at
  frame 0 and \<open>(0, 0)\<close> at frame 40. It is a function of the frame number alone: whatever
  the holders \<open>h\<close> before the tick, the position the tick of frame \<open>n\<close> records is that one.
\<close>

theorem particle_xy_linear:
  "particle_xy n = (real_of_int n * 0.1 - 4, 0) \<and>
   particle_xy 0 = (- 4, 0) \<and> particle_xy 40 = (0, 0) \<and>
   (animate p n h = Inr (h', I) \<longrightarrow> last (particle_trail h') = particle_xy n)"
proof -
  have "last (update_trail xy t) = xy" for xy :: point and t
    by (cases t) (simp_all add: update_trail_def Let_def)
  then have "last (update_trail (particle_xy n) (particle_trail h)) = particle_xy n" .
  then have "animate p n h = Inr (h', I) \<longrightarrow> last (particle_trail h') = particle_xy n"
    by (auto simp: animate_def Let_def split: sum.splits)
  then show ?thesis by (simp add: particle_xy_def)
qed

theorem particle_xy_linear_witness:
  "particle_xy 7 = (- 33/10, 0) \<and>
   (\<exists>h' I. animate (simulation_params 0.9 0.7) 0 init_holders = Inr (h', I) \<and>
           last (particle_trail h') = (- 4, 0))"
proof -
  let ?p = "simulation_params 0.9 0.7"
  have "wave_inv (0 - 1) (waves init_holders)" by (simp add: wave_inv_def init_holders_def)
  from animate_ok [OF this, of ?p] obtain h' I where
    a: "animate ?p 0 init_holders = Inr (h', I)" by auto
  from particle_xy_linear [of 0 ?p init_holders h' I] a
  have "last (particle_trail h') = (- 4, 0)" by simp
  moreover from particle_xy_linear [of 7 ?p init_holders h' I]
  have "particle_xy 7 = (- 33/10, 0)" by simp
  ultimately show ?thesis using a by blast
qed

text \<open>
  Claim C10. After the emission and removal steps of any tick of a run, the list holds at
  most 4 waves; each was emitted at a multiple of 5 and has an age between 0 and 16.
\<close>

theorem at_most_four_waves:
  "\<exists>h. run p (frames n) init_holders = Inr h \<and> length (waves h) \<le> 4 \<and>
       (\<forall>w \<in> set (waves h). start_frame w mod 5 = 0 \<and>
           0 \<le> (int n - 1) - start_frame w \<and> (int n - 1) - start_frame w \<le> 16)"
proof -
  from run_frames [of p n] obtain h where h: "run p (frames n) init_holders = Inr h"
    and inv: "wave_inv (int n - 1) (waves h)" by blast
  from inv have "\<forall>w \<in> set (waves h). start_frame w mod 5 = 0 \<and>
           0 \<le> (int n - 1) - start_frame w \<and> (int n - 1) - start_frame w \<le> 16"
    by (auto simp: wave_inv_def)
  with wave_inv_length [OF inv] h show ?thesis by blast
qed

theorem at_most_four_waves_witness:
  "\<exists>h. run (simulation_params 0.9 0.7) (frames 16) init_holders = Inr h \<and>
       length (waves h) = 4 \<and> length (waves h) \<le> 4"
proof -
  let ?p = "simulation_params 0.9 0.7"
  from at_most_four_waves [of ?p 16] obtain h where
    h: "run ?p (frames 16) init_holders = Inr h" and le: "length (waves h) \<le> 4" by blast
  from run_waves_16 [OF h] have "length (waves h) = 4" by simp
  with h le show ?thesis by blast
qed

end
